theory Spec2Isabelle
  imports Complex_Main "HOL-Library.Multiset"
begin

section \<open>JavaScript values\<close>

text \<open>
  The values that reach the \<open>typeof\<close> tests of \<open>src/index.js\<close>. A finite number is
  a rational: every finite double is one, and the code hands numbers on without computing
  with them. Negative zero is not told apart from zero, as \<open>===\<close> does not. The three
  non-finite numbers are kept apart, since \<open>typeof\<close> calls them numbers as well and
  \<open>JSON.stringify\<close> writes them as \<open>null\<close>.
\<close>

datatype number = Finite rat | NaN | PosInfinity | NegInfinity

datatype jsval =
    Undefined
  | Null
  | Boolean bool
  | Number number
  | String string
  | Object "(string \<times> jsval) list"

fun typeof :: "jsval \<Rightarrow> string" where
  "typeof Undefined = ''undefined''"
| "typeof Null = ''object''"
| "typeof (Boolean b) = ''boolean''"
| "typeof (Number n) = ''number''"
| "typeof (String s) = ''string''"
| "typeof (Object kvs) = ''object''"

text \<open>\<open>falsy v\<close> is the JavaScript test \<open>!v\<close>.\<close>

fun falsy :: "jsval \<Rightarrow> bool" where
  "falsy Undefined = True"
| "falsy Null = True"
| "falsy (Boolean b) = (\<not> b)"
| "falsy (Number n) = (n = Finite 0 \<or> n = NaN)"
| "falsy (String s) = (s = [])"
| "falsy (Object kvs) = False"

text \<open>
  \<open>get v k\<close> is the property read \<open>v.k\<close> on a value that is neither \<open>undefined\<close> nor
  \<open>null\<close>: a property of the object, and \<open>undefined\<close> where the object has none of that
  name or the value is a primitive (none of the names read in \<open>src/index.js\<close> is a
  property of a primitive).
\<close>

fun get :: "jsval \<Rightarrow> string \<Rightarrow> jsval" where
  "get (Object kvs) k = (case map_of kvs k of Some v \<Rightarrow> v | None \<Rightarrow> Undefined)"
| "get v k = Undefined"

text \<open>
  \<open>JSON_value v\<close> is \<open>JSON.parse(JSON.stringify(v))\<close> for a property value \<open>v\<close>:
  \<open>None\<close> where \<open>JSON.stringify\<close> leaves the property out.
\<close>

fun JSON_value :: "jsval \<Rightarrow> jsval option" where
  "JSON_value Undefined = None"
| "JSON_value Null = Some Null"
| "JSON_value (Boolean b) = Some (Boolean b)"
| "JSON_value (Number n) = Some (case n of Finite i \<Rightarrow> Number (Finite i) | _ \<Rightarrow> Null)"
| "JSON_value (String s) = Some (String s)"
| "JSON_value (Object kvs) =
     Some (Object (concat (map (\<lambda>(k, v). case JSON_value v of None \<Rightarrow> [] | Some w \<Rightarrow> [(k, w)]) kvs)))"

datatype error = Error string | TypeError string | SyntaxError string

fun message :: "error \<Rightarrow> string" where
  "message (Error s) = s"
| "message (TypeError s) = s"
| "message (SyntaxError s) = s"

section \<open>Data model\<close>

text \<open>
  The options of a starboard: the object literal built by \<open>_mergeOptions\<close>. The emoji
  and the two flags keep their types on every path; the threshold is a number when it
  comes from the \<open>typeof\<close> test, the default otherwise, and whatever \<open>JSON.parse\<close>
  gives back after a reload, so it stays a JavaScript value.
\<close>

record options =
  emoji :: string
  starBotMsg :: bool
  selfStar :: bool
  threshold :: jsval

text \<open>The object literal \<open>channelData\<close> of \<open>create\<close>.\<close>

record config =
  channelID :: string
  guildID :: string
  options :: options

text \<open>
  What \<open>create\<close> reads of its \<open>Discord.Channel\<close> argument: \<open>channel.id\<close> and
  \<open>channel.guild.id\<close>, both snowflake strings.
\<close>

record snowflaked =
  id' :: string

record channel = snowflaked +
  guild :: snowflaked

text \<open>The JavaScript object that a config record stands for.\<close>

definition options_value :: "options \<Rightarrow> jsval" where
  "options_value opts =
     Object [(''emoji'', String (emoji opts)),
             (''starBotMsg'', Boolean (starBotMsg opts)),
             (''selfStar'', Boolean (selfStar opts)),
             (''threshold'', threshold opts)]"

definition config_value :: "config \<Rightarrow> jsval" where
  "config_value c =
     Object [(''channelID'', String (channelID c)),
             (''guildID'', String (guildID c)),
             (''options'', options_value (options c))]"

section \<open>The storage file\<close>

text \<open>
  A file is modelled by what \<open>JSON.parse\<close> makes of its text: \<open>Text j\<close> is the text of
  the JSON value \<open>j\<close>, \<open>Unparsable msg\<close> a text on which \<open>JSON.parse\<close> throws a
  \<open>SyntaxError\<close> with message \<open>msg\<close> (a truncated text gives
  \<open>Unexpected end of JSON input\<close>). Of a JSON value the code only asks whether it is
  an array; an array in the storage file holds config objects, as
  \<open>saveStarboard\<close> and \<open>deleteStarboard\<close> write them.
\<close>

datatype json = Array "config list" | NotArray

datatype content = Text json | Unparsable string

fun JSON_parse :: "content \<Rightarrow> error + json" where
  "JSON_parse (Text j) = Inr j"
| "JSON_parse (Unparsable msg) = Inl (SyntaxError msg)"

text \<open>
  What a config object is after \<open>JSON.stringify\<close> and \<open>JSON.parse\<close>: strings and
  booleans are written as they are, the threshold as \<open>JSON_value\<close> says (a property that
  is left out reads as \<open>undefined\<close>).
\<close>

definition toJSON :: "config \<Rightarrow> config" where
  "toJSON c =
     c\<lparr>options := (options c)\<lparr>threshold :=
        (case JSON_value (threshold (options c)) of None \<Rightarrow> Undefined | Some w \<Rightarrow> w)\<rparr>\<rparr>"

definition JSON_stringify :: "config list \<Rightarrow> content" where
  "JSON_stringify cs = Text (Array (map toJSON cs))"

text \<open>
  \<open>this.options.storage\<close> is a boolean or a string, by the test of the constructor.
\<close>

datatype storage = Flag bool | Path string

type_synonym files = "string \<rightharpoonup> content"

text \<open>
  The three calls of Node's \<open>fs\<close>, promisified. \<open>fs.exists\<close> answers \<open>false\<close> for
  an argument that is no path; \<open>fs.writeFile\<close> and \<open>fs.readFile\<close> reject it with a
  \<open>TypeError\<close> and touch no file. A write to a path is taken to succeed.
\<close>

fun existsAsync :: "storage \<Rightarrow> files \<Rightarrow> bool" where
  "existsAsync (Path p) fs = (fs p \<noteq> None)"
| "existsAsync (Flag b) fs = False"

fun writeFileAsync :: "storage \<Rightarrow> content \<Rightarrow> files \<Rightarrow> error + files" where
  "writeFileAsync (Path p) c fs = Inr (fs(p \<mapsto> c))"
| "writeFileAsync (Flag b) c fs = Inl (TypeError ''ERR_INVALID_ARG_TYPE'')"

fun readFileAsync :: "storage \<Rightarrow> files \<Rightarrow> error + content" where
  "readFileAsync (Path p) fs = (case fs p of Some c \<Rightarrow> Inr c | None \<Rightarrow> Inl (Error ''ENOENT''))"
| "readFileAsync (Flag b) fs = Inl (TypeError ''ERR_INVALID_ARG_TYPE'')"

section \<open>The manager\<close>

text \<open>
  The state a call can read or change: the fields of the \<open>StarboardsManager\<close>
  (\<open>storage\<close> is \<open>this.options.storage\<close>), the files, and the events emitted so far,
  oldest first. \<open>defaultsOptions\<close> is the constant \<open>StarBoardCreateDefaultsOptions\<close>
  of \<open>./constants\<close>; it is a parameter here, an object with the four fields of the
  options.

  \<open>create\<close>, \<open>delete\<close> and the constructor are not \<open>async\<close>: they start an
  asynchronous operation, drop its promise and return. \<open>pending\<close> holds the operations
  that have been started and have not completed, oldest first: \<open>Load\<close> is the call
  of \<open>_init\<close> that the constructor makes, \<open>Write c\<close> a call of \<open>fs.writeFile\<close> with the
  text \<open>c\<close>, which \<open>JSON.stringify\<close> has computed when the call was made. A call
  leaves the files as they are; they change when an operation completes.
\<close>

datatype task = Load | Write content

record manager =
  starboards :: "config list"
  defaultsOptions :: options
  storage :: storage
  files :: files
  emitted :: "(string \<times> config) list"
  pending :: "task list"

definition emit :: "string \<Rightarrow> config \<Rightarrow> manager \<Rightarrow> manager" where
  "emit event data m = m\<lparr>emitted := emitted m @ [(event, data)]\<rparr>"

definition mergeOptions :: "manager \<Rightarrow> jsval \<Rightarrow> options" where
  "mergeOptions m opts =
     (if falsy opts then defaultsOptions m
      else
        \<lparr>emoji = (case get opts ''emoji'' of String s \<Rightarrow> s | _ \<Rightarrow> emoji (defaultsOptions m)),
         starBotMsg = (case get opts ''starBotMsg'' of Boolean b \<Rightarrow> b | _ \<Rightarrow> starBotMsg (defaultsOptions m)),
         selfStar = (case get opts ''selfStar'' of Boolean b \<Rightarrow> b | _ \<Rightarrow> selfStar (defaultsOptions m)),
         threshold = (if typeof (get opts ''threshold'') = ''number'' then get opts ''threshold''
                      else threshold (defaultsOptions m))\<rparr>)"

text \<open>
  \<open>saveStarboard\<close> and \<open>deleteStarboard\<close>, as their callers use them: the body runs
  up to its \<open>await\<close>, which serializes the list as it is now and starts the write.
\<close>

definition saveStarboard :: "config \<Rightarrow> manager \<Rightarrow> manager" where
  "saveStarboard data m = m\<lparr>pending := pending m @ [Write (JSON_stringify (starboards m))]\<rparr>"

definition deleteStarboard :: "string \<Rightarrow> manager \<Rightarrow> manager" where
  "deleteStarboard channelID' m = m\<lparr>pending := pending m @ [Write (JSON_stringify (starboards m))]\<rparr>"

text \<open>The object literal \<open>channelData\<close> that \<open>create\<close> builds first.\<close>

definition new_channelData :: "channel \<Rightarrow> jsval \<Rightarrow> manager \<Rightarrow> config" where
  "new_channelData channel opts m =
     \<lparr>channelID = id' channel, guildID = id' (guild channel), options = mergeOptions m opts\<rparr>"

definition create :: "channel \<Rightarrow> jsval \<Rightarrow> manager \<Rightarrow> (error + jsval) \<times> manager" where
  "create channel opts m =
     (let channelData = new_channelData channel opts m
      in if find (\<lambda>data. channelID data = channelID channelData \<and>
                          emoji (options data) = emoji (options channelData)) (starboards m) \<noteq> None
         then (Inl (Error ''There is already a starboard in this channel with the same emoji''), m)
         else
           let m1 = m\<lparr>starboards := starboards m @ [channelData]\<rparr>;
               m2 = saveStarboard channelData m1;
               m3 = emit ''starboardCreate'' channelData m2
           in (Inr (Boolean True), m3))"

text \<open>
  The lookup by channel, written twice in the source: in \<open>delete\<close> and in the handler
  of \<open>channelDelete\<close>.
\<close>

definition findByChannel :: "string \<Rightarrow> manager \<Rightarrow> config option" where
  "findByChannel channelID' m = find (\<lambda>channelData. channelID channelData = channelID') (starboards m)"

definition delete :: "string \<Rightarrow> manager \<Rightarrow> (error + jsval) \<times> manager" where
  "delete channelID' m =
     (case findByChannel channelID' m of
        None \<Rightarrow> (Inl (Error (''The channel '' @ [CHR 0x22] @ channelID' @ [CHR 0x22] @ '' is not a starboard'')), m)
      | Some data \<Rightarrow>
          let m1 = m\<lparr>starboards := filter (\<lambda>channelData. channelID channelData \<noteq> channelID') (starboards m)\<rparr>;
              m2 = deleteStarboard channelID' m1;
              m3 = emit ''starboardDelete'' data m2
          in (Inr (Boolean True), m3))"

definition getAllStarboards :: "manager \<Rightarrow> (error + config list) \<times> manager" where
  "getAllStarboards m =
     (if \<not> existsAsync (storage m) (files m) then
        (case writeFileAsync (storage m) (Text (Array [])) (files m) of
           Inl e \<Rightarrow> (Inl e, m)
         | Inr fs \<Rightarrow> (Inr [], m\<lparr>files := fs\<rparr>))
      else
        (case readFileAsync (storage m) (files m) of
           Inl e \<Rightarrow> (Inl e, m)
         | Inr storageContent \<Rightarrow>
             (case (case JSON_parse storageContent of
                      Inl e \<Rightarrow> Inl e
                    | Inr (Array starboards') \<Rightarrow> Inr starboards'
                    | Inr NotArray \<Rightarrow>
                        Inl (SyntaxError ''The storage file is not properly formatted (giveaways is not an array).''))
              of
                Inl e \<Rightarrow>
                  if message e = ''Unexpected end of JSON input''
                  then (Inl (SyntaxError ''The storage file is not properly formatted (Unexpected end of JSON input).''), m)
                  else (Inl e, m)
              | Inr starboards' \<Rightarrow> (Inr starboards', m))))"

text \<open>\<open>_init\<close>, run to its end: a rejection of \<open>getAllStarboards\<close> leaves the list as it is.\<close>

definition init :: "manager \<Rightarrow> manager" where
  "init m =
     (case getAllStarboards m of
        (Inl e, m') \<Rightarrow> m'
      | (Inr starboards', m') \<Rightarrow> m'\<lparr>starboards := starboards'\<rparr>)"

text \<open>
  The constructor, up to the registration of the two listeners on the client. The
  parameter \<open>options\<close> defaults to \<open>{}\<close> when it is \<open>undefined\<close>; reading
  \<open>options.storage\<close> of \<open>null\<close> throws. It calls \<open>_init\<close> and does not wait for
  it: the manager it returns has an empty list and the load pending.
\<close>

definition constructor :: "'c option \<Rightarrow> jsval \<Rightarrow> options \<Rightarrow> files \<Rightarrow> error + manager" where
  "constructor client opts defaults fs =
     (case client of
        None \<Rightarrow> Inl (Error ''Client is a required parameter.'')
      | Some c \<Rightarrow>
          let opts = (if opts = Undefined then Object [] else opts)
          in if opts = Null then Inl (TypeError ''Cannot read property storage of null'')
             else
               Inr \<lparr>starboards = [],
                    defaultsOptions = defaults,
                    storage = (case get opts ''storage'' of
                                 Boolean b \<Rightarrow> Flag b
                               | String s \<Rightarrow> Path s
                               | _ \<Rightarrow> Path ''./starboards.json''),
                    files = fs,
                    emitted = [],
                    pending = [Load]\<rparr>)"

text \<open>The handler of the client's \<open>channelDelete\<close> event.\<close>

definition on_channelDelete :: "channel \<Rightarrow> manager \<Rightarrow> manager" where
  "on_channelDelete channel m =
     (case findByChannel (id' channel) m of
        None \<Rightarrow> m
      | Some channelData \<Rightarrow> snd (delete (channelID channelData) m))"

section \<open>Sequences of calls\<close>

text \<open>
  A call that throws leaves the manager as it was when the exception was raised, and the
  next call runs from there.
\<close>

datatype call = Create channel jsval | Delete string | ChannelDelete channel

fun step :: "call \<Rightarrow> manager \<Rightarrow> manager" where
  "step (Create channel opts) m = snd (create channel opts m)"
| "step (Delete channelID') m = snd (delete channelID' m)"
| "step (ChannelDelete channel) m = on_channelDelete channel m"

definition run :: "call list \<Rightarrow> manager \<Rightarrow> manager" where
  "run calls m = fold step calls m"

text \<open>The pair that may occur once in the registry.\<close>

definition key :: "config \<Rightarrow> string \<times> string" where
  "key c = (channelID c, emoji (options c))"

section \<open>Completion of the pending operations\<close>

text \<open>
  An operation that completes does so in one piece: \<open>_init\<close> runs to its end, a write
  replaces the whole file, and a rejected write changes nothing. The operations may
  complete in any order, but the model has no state in which two of them have each done
  a part of their work on the file.
\<close>

fun complete :: "task \<Rightarrow> manager \<Rightarrow> manager" where
  "complete Load m = init m"
| "complete (Write c) m =
     (case writeFileAsync (storage m) c (files m) of
        Inl e \<Rightarrow> m
      | Inr fs \<Rightarrow> m\<lparr>files := fs\<rparr>)"

text \<open>The pending operation at position \<open>n\<close> completes.\<close>

definition settle_nth :: "nat \<Rightarrow> manager \<Rightarrow> manager" where
  "settle_nth n m =
     (if n < length (pending m)
      then complete (pending m ! n) (m\<lparr>pending := take n (pending m) @ drop (Suc n) (pending m)\<rparr>)
      else m)"

text \<open>The oldest pending operation completes.\<close>

definition settle :: "manager \<Rightarrow> manager" where
  "settle m = settle_nth 0 m"

text \<open>What can happen to a manager: a call, or the completion of a pending operation.\<close>

datatype event = Call call | Settle nat

fun fire :: "event \<Rightarrow> manager \<Rightarrow> manager" where
  "fire (Call c) m = step c m"
| "fire (Settle n) m = settle_nth n m"

definition schedule :: "event list \<Rightarrow> manager \<Rightarrow> manager" where
  "schedule events m = fold fire events m"


section \<open>Concrete inputs\<close>

text \<open>
  Two channels of one guild, an example of the defaults, and managers in the states that
  the examples below start from or end in.
\<close>

definition defaults0 :: options where
  "defaults0 = \<lparr>emoji = ''star'', starBotMsg = True, selfStar = True, threshold = Number (Finite 1)\<rparr>"

definition general :: channel where
  "general = \<lparr>id' = ''100'', guild = \<lparr>id' = ''1''\<rparr>\<rparr>"

definition random :: channel where
  "random = \<lparr>id' = ''200'', guild = \<lparr>id' = ''1''\<rparr>\<rparr>"

definition manager0 :: manager where
  "manager0 =
     \<lparr>starboards = [], defaultsOptions = defaults0, storage = Path ''./starboards.json'',
      files = Map.empty, emitted = [], pending = []\<rparr>"

definition star_general :: config where
  "star_general = \<lparr>channelID = ''100'', guildID = ''1'', options = defaults0\<rparr>"

definition heart_general :: config where
  "heart_general = \<lparr>channelID = ''100'', guildID = ''1'', options = defaults0\<lparr>emoji := ''heart''\<rparr>\<rparr>"

definition star_random :: config where
  "star_random = \<lparr>channelID = ''200'', guildID = ''1'', options = defaults0\<rparr>"

definition manager1 :: manager where
  "manager1 = manager0\<lparr>starboards := [star_random, star_general, heart_general]\<rparr>"

definition opts2 :: jsval where
  "opts2 = Object [(''emoji'', String ''heart''), (''selfStar'', Boolean False)]"

definition opts1 :: jsval where
  "opts1 = Object [(''emoji'', Number (Finite 3)), (''threshold'', Number (Finite 2)), (''starBotMsg'', Boolean False)]"

definition manager2 :: manager where
  "manager2 = manager1\<lparr>files := [''./starboards.json'' \<mapsto> Unparsable ''Unexpected end of JSON input'',
                                    ''notes.txt'' \<mapsto> Text NotArray]\<rparr>"

definition manager_array :: manager where
  "manager_array = manager0\<lparr>files := [''./starboards.json'' \<mapsto> Text (Array [star_general, heart_general])]\<rparr>"

definition manager_object :: manager where
  "manager_object = manager0\<lparr>files := [''./starboards.json'' \<mapsto> Text NotArray]\<rparr>"

definition manager_token :: manager where
  "manager_token = manager0\<lparr>files := [''./starboards.json'' \<mapsto> Unparsable ''Unexpected token ] in JSON at position 1'']\<rparr>"

definition manager_synced :: manager where
  "manager_synced =
     manager1\<lparr>files := [''./starboards.json'' \<mapsto> JSON_stringify [star_random, star_general, heart_general]]\<rparr>"

definition manager_flag :: manager where
  "manager_flag = manager0\<lparr>storage := Flag False, pending := [Load]\<rparr>"

definition manager_custom :: manager where
  "manager_custom = manager0\<lparr>storage := Path ''./data/boards.json'', pending := [Load]\<rparr>"

definition manager_default :: manager where
  "manager_default = manager0\<lparr>pending := [Load]\<rparr>"












section \<open>What each call does to the manager\<close>

lemma saveStarboard_simps:
  "starboards (saveStarboard d m) = starboards m"
  "storage (saveStarboard d m) = storage m"
  "defaultsOptions (saveStarboard d m) = defaultsOptions m"
  "emitted (saveStarboard d m) = emitted m"
  "files (saveStarboard d m) = files m"
  "pending (saveStarboard d m) = pending m @ [Write (JSON_stringify (starboards m))]"
  by (simp_all add: saveStarboard_def)

lemma deleteStarboard_simps:
  "starboards (deleteStarboard c m) = starboards m"
  "storage (deleteStarboard c m) = storage m"
  "defaultsOptions (deleteStarboard c m) = defaultsOptions m"
  "emitted (deleteStarboard c m) = emitted m"
  "files (deleteStarboard c m) = files m"
  "pending (deleteStarboard c m) = pending m @ [Write (JSON_stringify (starboards m))]"
  by (simp_all add: deleteStarboard_def)

lemma emit_simps:
  "starboards (emit e d m) = starboards m"
  "storage (emit e d m) = storage m"
  "defaultsOptions (emit e d m) = defaultsOptions m"
  "files (emit e d m) = files m"
  "pending (emit e d m) = pending m"
  "emitted (emit e d m) = emitted m @ [(e, d)]"
  by (simp_all add: emit_def)

lemma create_duplicate:
  assumes "\<exists>d \<in> set (starboards m). channelID d = id' ch \<and> emoji (options d) = emoji (mergeOptions m opts)"
  shows "create ch opts m = (Inl (Error ''There is already a starboard in this channel with the same emoji''), m)"
  using assms by (auto simp add: create_def Let_def find_None_iff new_channelData_def)

lemma create_fresh:
  assumes "\<not> (\<exists>d \<in> set (starboards m). channelID d = id' ch \<and> emoji (options d) = emoji (mergeOptions m opts))"
  shows "create ch opts m =
           (Inr (Boolean True),
            emit ''starboardCreate'' (new_channelData ch opts m)
              (saveStarboard (new_channelData ch opts m)
                 (m\<lparr>starboards := starboards m @ [new_channelData ch opts m]\<rparr>)))"
  using assms by (auto simp add: create_def Let_def find_None_iff new_channelData_def)

lemma delete_missing:
  assumes "\<forall>d \<in> set (starboards m). channelID d \<noteq> cid"
  shows "delete cid m = (Inl (Error (''The channel '' @ [CHR 0x22] @ cid @ [CHR 0x22] @ '' is not a starboard'')), m)"
  using assms by (auto simp add: delete_def findByChannel_def find_None_iff split: option.splits)

lemma delete_found:
  assumes "find (\<lambda>d. channelID d = cid) (starboards m) = Some d"
  shows "delete cid m =
           (Inr (Boolean True),
            emit ''starboardDelete'' d
              (deleteStarboard cid (m\<lparr>starboards := filter (\<lambda>c. channelID c \<noteq> cid) (starboards m)\<rparr>)))"
  using assms by (simp add: delete_def findByChannel_def Let_def)

lemma find_first:
  "\<forall>c \<in> set pre. \<not> P c \<Longrightarrow> P d \<Longrightarrow> find P (pre @ d # post) = Some d"
  by (induction pre) simp_all

lemma key_present_iff:
  "key (new_channelData ch opts m) \<in> key ` set (starboards m) \<longleftrightarrow>
     (\<exists>d \<in> set (starboards m). channelID d = id' ch \<and> emoji (options d) = emoji (mergeOptions m opts))"
proof
  assume "key (new_channelData ch opts m) \<in> key ` set (starboards m)"
  then obtain d where "d \<in> set (starboards m)" "key d = key (new_channelData ch opts m)"
    by (metis imageE)
  then show "\<exists>d \<in> set (starboards m). channelID d = id' ch \<and> emoji (options d) = emoji (mergeOptions m opts)"
    by (auto simp add: key_def new_channelData_def)
next
  assume "\<exists>d \<in> set (starboards m). channelID d = id' ch \<and> emoji (options d) = emoji (mergeOptions m opts)"
  then obtain d where "d \<in> set (starboards m)" "key d = key (new_channelData ch opts m)"
    by (auto simp add: key_def new_channelData_def)
  then show "key (new_channelData ch opts m) \<in> key ` set (starboards m)"
    by (metis imageI)
qed

lemma create_succeeds_iff:
  "(\<exists>r. fst (create ch opts m) = Inr r) \<longleftrightarrow> key (new_channelData ch opts m) \<notin> key ` set (starboards m)"
proof (cases "\<exists>d \<in> set (starboards m). channelID d = id' ch \<and> emoji (options d) = emoji (mergeOptions m opts)")
  case True
  then show ?thesis using key_present_iff [of ch opts m] by (simp add: create_duplicate)
next
  case False
  then show ?thesis using key_present_iff [of ch opts m] by (simp add: create_fresh)
qed

lemma create_result:
  assumes "fst (create ch opts m) = Inr r"
  shows "create ch opts m =
           (Inr (Boolean True),
            emit ''starboardCreate'' (new_channelData ch opts m)
              (saveStarboard (new_channelData ch opts m)
                 (m\<lparr>starboards := starboards m @ [new_channelData ch opts m]\<rparr>)))"
proof (cases "\<exists>d \<in> set (starboards m). channelID d = id' ch \<and> emoji (options d) = emoji (mergeOptions m opts)")
  case True
  then show ?thesis using assms by (simp add: create_duplicate)
next
  case False
  then show ?thesis by (rule create_fresh)
qed

lemma delete_result:
  assumes "fst (delete cid m) = Inr r"
  obtains d where "find (\<lambda>d. channelID d = cid) (starboards m) = Some d"
    and "delete cid m =
           (Inr (Boolean True),
            emit ''starboardDelete'' d
              (deleteStarboard cid (m\<lparr>starboards := filter (\<lambda>c. channelID c \<noteq> cid) (starboards m)\<rparr>)))"
proof (cases "find (\<lambda>d. channelID d = cid) (starboards m)")
  case None
  then have "\<forall>d \<in> set (starboards m). channelID d \<noteq> cid" by (auto simp add: find_None_iff)
  then show ?thesis using assms by (simp add: delete_missing)
next
  case (Some d)
  then show ?thesis using that delete_found by blast
qed

lemma channel_present_find:
  assumes "cid \<in> channelID ` set (starboards m)"
  obtains d where "find (\<lambda>d. channelID d = cid) (starboards m) = Some d" "channelID d = cid"
proof -
  from assms have "find (\<lambda>d. channelID d = cid) (starboards m) \<noteq> None"
    by (auto simp add: find_None_iff)
  then obtain d where d: "find (\<lambda>d. channelID d = cid) (starboards m) = Some d" by blast
  then have "channelID d = cid" by (auto simp add: find_Some_iff)
  with d show ?thesis using that by blast
qed

lemma init_simps:
  "storage (init m) = storage m"
  "defaultsOptions (init m) = defaultsOptions m"
  "emitted (init m) = emitted m"
  "pending (init m) = pending m"
  by (simp_all add: init_def getAllStarboards_def split: sum.splits option.splits json.splits prod.splits if_splits)

lemma getAllStarboards_Flag:
  "storage m = Flag b \<Longrightarrow> getAllStarboards m = (Inl (TypeError ''ERR_INVALID_ARG_TYPE''), m)"
  by (simp add: getAllStarboards_def)

lemma step_storage: "storage (step c m) = storage m"
proof (cases c)
  case (Create ch opts)
  then show ?thesis
    by (simp add: create_def Let_def emit_simps saveStarboard_simps)
next
  case (Delete cid)
  then show ?thesis
    by (simp add: delete_def Let_def emit_simps deleteStarboard_simps split: option.splits)
next
  case (ChannelDelete ch)
  then show ?thesis
    by (simp add: on_channelDelete_def delete_def Let_def emit_simps deleteStarboard_simps split: option.splits)
qed

lemma step_files: "files (step c m) = files m"
proof (cases c)
  case (Create ch opts)
  then show ?thesis
    by (simp add: create_def Let_def emit_simps saveStarboard_simps)
next
  case (Delete cid)
  then show ?thesis
    by (simp add: delete_def Let_def emit_simps deleteStarboard_simps split: option.splits)
next
  case (ChannelDelete ch)
  then show ?thesis
    by (simp add: on_channelDelete_def delete_def Let_def emit_simps deleteStarboard_simps split: option.splits)
qed

lemma run_files: "files (run calls m) = files m"
  unfolding run_def by (induction calls arbitrary: m) (simp_all add: step_files)

lemma complete_storage: "storage (complete t m) = storage m"
  by (cases t) (simp_all add: init_simps split: sum.splits)

lemma complete_Flag:
  "storage m = Flag b \<Longrightarrow> files (complete t m) = files m \<and> starboards (complete t m) = starboards m"
  by (cases t) (simp_all add: init_def getAllStarboards_Flag)

lemma settle_nth_storage: "storage (settle_nth n m) = storage m"
  by (simp add: settle_nth_def complete_storage)

lemma settle_nth_Flag:
  "storage m = Flag b \<Longrightarrow>
     files (settle_nth n m) = files m \<and> starboards (settle_nth n m) = starboards m"
  by (simp add: settle_nth_def complete_Flag)

lemma fire_storage: "storage (fire e m) = storage m"
  by (cases e) (simp_all add: step_storage settle_nth_storage)

lemma fire_files_Flag: "storage m = Flag b \<Longrightarrow> files (fire e m) = files m"
  by (cases e) (simp_all add: step_files settle_nth_Flag)

lemma schedule_files_Flag: "storage m = Flag b \<Longrightarrow> files (schedule events m) = files m"
  unfolding schedule_def
proof (induction events arbitrary: m)
  case Nil
  then show ?case by simp
next
  case (Cons e events)
  then show ?case by (simp add: fire_storage fire_files_Flag)
qed

lemma settle_single:
  "pending m = [t] \<Longrightarrow> settle m = complete t (m\<lparr>pending := []\<rparr>)"
  by (simp add: settle_def settle_nth_def)

lemma settle_write:
  assumes "pending m = [Write c]" and "storage m = Path p"
  shows "settle m = m\<lparr>pending := [], files := (files m)(p \<mapsto> c)\<rparr>"
  using assms by (simp add: settle_single)

section \<open>The registry holds each pair once\<close>

lemma step_distinct:
  assumes "distinct (map key (starboards m))"
  shows "distinct (map key (starboards (step c m)))"
proof (cases c)
  case (Create ch opts)
  show ?thesis
  proof (cases "\<exists>d \<in> set (starboards m). channelID d = id' ch \<and> emoji (options d) = emoji (mergeOptions m opts)")
    case True
    then show ?thesis using assms Create by (simp add: create_duplicate)
  next
    case False
    then have "key (new_channelData ch opts m) \<notin> key ` set (starboards m)"
      by (simp add: key_present_iff)
    then show ?thesis using assms Create False
      by (simp add: create_fresh emit_simps saveStarboard_simps)
  qed
next
  case (Delete cid)
  show ?thesis
  proof (cases "find (\<lambda>d. channelID d = cid) (starboards m)")
    case None
    then have "\<forall>d \<in> set (starboards m). channelID d \<noteq> cid" by (auto simp add: find_None_iff)
    then show ?thesis using assms Delete by (simp add: delete_missing)
  next
    case (Some d)
    then show ?thesis using assms Delete
      by (simp add: delete_found emit_simps deleteStarboard_simps distinct_map_filter)
  qed
next
  case (ChannelDelete ch)
  show ?thesis
  proof (cases "find (\<lambda>d. channelID d = id' ch) (starboards m)")
    case None
    then show ?thesis using assms ChannelDelete by (simp add: on_channelDelete_def findByChannel_def)
  next
    case (Some d)
    then have cd: "channelID d = id' ch" by (auto simp add: find_Some_iff)
    show ?thesis using assms ChannelDelete Some cd
      by (simp add: on_channelDelete_def findByChannel_def delete_found emit_simps deleteStarboard_simps distinct_map_filter)
  qed
qed

lemma run_distinct:
  "distinct (map key (starboards m)) \<Longrightarrow> distinct (map key (starboards (run calls m)))"
  unfolding run_def by (induction calls arbitrary: m) (simp_all add: step_distinct)

text \<open>
  C1. Whatever calls of \<open>create\<close> and \<open>delete\<close> (and whatever deletions of channels
  upstream) follow one another from an empty registry, no two configs of the registry
  have the same channel id and the same emoji. The test that keeps it so is the one
  \<open>create\<close> makes before it appends: a call succeeds exactly when the pair of the new
  config is not in the registry yet.
\<close>

theorem registry_pairs_unique:
  assumes "starboards m = []"
  shows "distinct (map key (starboards (run calls m))) \<and>
         (\<forall>channel opts. (\<exists>r. fst (create channel opts (run calls m)) = Inr r) \<longleftrightarrow>
            key (new_channelData channel opts (run calls m)) \<notin> key ` set (starboards (run calls m)))"
  using assms by (simp add: run_distinct create_succeeds_iff)

theorem registry_pairs_unique_witness:
  "starboards manager0 = [] \<and>
   distinct (map key (starboards (run
     [Create general Undefined, Create general (Object [(''threshold'', Number (Finite 3))]),
      Create general (Object [(''emoji'', String ''heart'')]), Create random Undefined,
      Delete ''200'', Create random Null] manager0)))"
proof -
  have h: "starboards manager0 = []" by (simp add: manager0_def)
  show ?thesis using h registry_pairs_unique [OF h] by simp
qed

section \<open>A duplicate is refused\<close>

text \<open>
  C2. In every state of the manager, a call of \<open>create\<close> whose new config has a
  channel id and an emoji that a config of the registry already has throws the error
  of the duplicate and changes nothing: the list, the files and the emitted events are
  those of before.
\<close>

theorem create_duplicate_fails:
  assumes "key (new_channelData channel opts m) \<in> key ` set (starboards m)"
  shows "create channel opts m =
           (Inl (Error ''There is already a starboard in this channel with the same emoji''), m)"
  using assms by (simp add: key_present_iff create_duplicate)

theorem create_duplicate_fails_witness:
  "key (new_channelData general (Object [(''emoji'', String ''heart''), (''threshold'', Number (Finite 7))]) manager1)
      \<in> key ` set (starboards manager1) \<and>
   create general (Object [(''emoji'', String ''heart''), (''threshold'', Number (Finite 7))]) manager1 =
     (Inl (Error ''There is already a starboard in this channel with the same emoji''), manager1)"
proof -
  have h: "key (new_channelData general (Object [(''emoji'', String ''heart''), (''threshold'', Number (Finite 7))]) manager1)
      \<in> key ` set (starboards manager1)"
    by (simp add: key_def new_channelData_def mergeOptions_def manager1_def manager0_def general_def
        star_random_def star_general_def heart_general_def defaults0_def)
  show ?thesis using h create_duplicate_fails [OF h] by simp
qed

section \<open>Deleting a starboard\<close>

text \<open>
  C3, as the code has it. \<open>delete\<close> of a channel id that no config of the registry has
  throws the error that the channel is not a starboard and changes nothing (list, files,
  pending operations and emitted events are those of before). When a config has that
  channel id, the call succeeds; after it the lookup by channel finds nothing for that
  id, \<open>starboardDelete\<close> has been emitted with the config that the lookup found before
  the call, and a write of the list as it is now has been started. When the storage is
  a path and no other operation is pending, the storage file holds that list once the
  write has completed.
\<close>

theorem delete_missing_or_found:
  "(channelID' \<notin> channelID ` set (starboards m) \<longrightarrow>
      delete channelID' m =
        (Inl (Error (''The channel '' @ [CHR 0x22] @ channelID' @ [CHR 0x22] @ '' is not a starboard'')), m)) \<and>
   (channelID' \<in> channelID ` set (starboards m) \<longrightarrow>
      fst (delete channelID' m) = Inr (Boolean True) \<and>
      findByChannel channelID' (snd (delete channelID' m)) = None \<and>
      pending (snd (delete channelID' m)) =
        pending m @ [Write (JSON_stringify (starboards (snd (delete channelID' m))))] \<and>
      (\<forall>p. storage m = Path p \<and> pending m = [] \<longrightarrow>
         files (settle (snd (delete channelID' m))) p =
           Some (JSON_stringify (starboards (snd (delete channelID' m)))) \<and>
         starboards (settle (snd (delete channelID' m))) = starboards (snd (delete channelID' m))) \<and>
      (\<exists>d. findByChannel channelID' m = Some d \<and>
         emitted (snd (delete channelID' m)) = emitted m @ [(''starboardDelete'', d)]))"
proof (intro conjI impI)
  assume "channelID' \<notin> channelID ` set (starboards m)"
  then have "\<forall>d \<in> set (starboards m). channelID d \<noteq> channelID'" by auto
  then show "delete channelID' m =
        (Inl (Error (''The channel '' @ [CHR 0x22] @ channelID' @ [CHR 0x22] @ '' is not a starboard'')), m)"
    by (rule delete_missing)
next
  assume present: "channelID' \<in> channelID ` set (starboards m)"
  then obtain d where d: "find (\<lambda>d. channelID d = channelID') (starboards m) = Some d"
    by (rule channel_present_find)
  note del = delete_found [OF d]
  show "fst (delete channelID' m) = Inr (Boolean True)" by (simp add: del)
  show "findByChannel channelID' (snd (delete channelID' m)) = None"
    by (simp add: del findByChannel_def emit_simps deleteStarboard_simps find_None_iff)
  show p: "pending (snd (delete channelID' m)) =
        pending m @ [Write (JSON_stringify (starboards (snd (delete channelID' m))))]"
    by (simp add: del emit_simps deleteStarboard_simps)
  show "\<forall>p. storage m = Path p \<and> pending m = [] \<longrightarrow>
         files (settle (snd (delete channelID' m))) p =
           Some (JSON_stringify (starboards (snd (delete channelID' m)))) \<and>
         starboards (settle (snd (delete channelID' m))) = starboards (snd (delete channelID' m))"
  proof (intro allI impI)
    fix p assume a: "storage m = Path p \<and> pending m = []"
    have s: "storage (snd (delete channelID' m)) = Path p"
      using a by (simp add: del emit_simps deleteStarboard_simps)
    from p a have "pending (snd (delete channelID' m)) =
        [Write (JSON_stringify (starboards (snd (delete channelID' m))))]" by simp
    from settle_write [OF this s]
    show "files (settle (snd (delete channelID' m))) p =
           Some (JSON_stringify (starboards (snd (delete channelID' m)))) \<and>
         starboards (settle (snd (delete channelID' m))) = starboards (snd (delete channelID' m))"
      by simp
  qed
  show "\<exists>d. findByChannel channelID' m = Some d \<and>
         emitted (snd (delete channelID' m)) = emitted m @ [(''starboardDelete'', d)]"
    using d by (simp add: del findByChannel_def emit_simps deleteStarboard_simps)
qed

lemma delete_100_manager1:
  "delete ''100'' (manager1\<lparr>files := fs\<rparr>) =
     (Inr (Boolean True),
      manager1\<lparr>files := fs, starboards := [star_random],
               emitted := [(''starboardDelete'', star_general)],
               pending := [Write (JSON_stringify [star_random])]\<rparr>)"
  by (simp add: delete_def findByChannel_def Let_def emit_def deleteStarboard_def
      manager1_def manager0_def star_random_def star_general_def heart_general_def)

theorem delete_missing_or_found_witness:
  "''999'' \<notin> channelID ` set (starboards manager1) \<and>
   delete ''999'' manager1 =
     (Inl (Error (''The channel '' @ [CHR 0x22] @ ''999'' @ [CHR 0x22] @ '' is not a starboard'')), manager1) \<and>
   ''100'' \<in> channelID ` set (starboards manager1) \<and>
   storage manager1 = Path ''./starboards.json'' \<and>
   pending manager1 = [] \<and>
   fst (delete ''100'' manager1) = Inr (Boolean True) \<and>
   findByChannel ''100'' (snd (delete ''100'' manager1)) = None \<and>
   pending (snd (delete ''100'' manager1)) = [Write (JSON_stringify [star_random])] \<and>
   files (settle (snd (delete ''100'' manager1))) ''./starboards.json'' = Some (JSON_stringify [star_random]) \<and>
   emitted (snd (delete ''100'' manager1)) = [(''starboardDelete'', star_general)]"
proof -
  have h1: "''999'' \<notin> channelID ` set (starboards manager1)"
    by (simp add: manager1_def manager0_def star_random_def star_general_def heart_general_def)
  have h2: "''100'' \<in> channelID ` set (starboards manager1)"
    by (simp add: manager1_def manager0_def star_random_def star_general_def heart_general_def)
  have h3: "storage manager1 = Path ''./starboards.json''" "pending manager1 = []"
    by (simp_all add: manager1_def manager0_def)
  have s: "starboards (snd (delete ''100'' manager1)) = [star_random]"
    using delete_100_manager1 [of "files manager1"] by simp
  have f: "findByChannel ''100'' manager1 = Some star_general"
    by (simp add: findByChannel_def manager1_def manager0_def star_random_def star_general_def heart_general_def)
  have e: "emitted manager1 = []" by (simp add: manager1_def manager0_def)
  note a = delete_missing_or_found [of "''999''" manager1, THEN conjunct1, rule_format, OF h1]
  note b = delete_missing_or_found [of "''100''" manager1, THEN conjunct2, rule_format, OF h2]
  from b h3 s have b1: "fst (delete ''100'' manager1) = Inr (Boolean True)"
    "findByChannel ''100'' (snd (delete ''100'' manager1)) = None"
    "pending (snd (delete ''100'' manager1)) = [Write (JSON_stringify [star_random])]"
    "files (settle (snd (delete ''100'' manager1))) ''./starboards.json'' = Some (JSON_stringify [star_random])"
    by simp_all
  from b f e have b2: "emitted (snd (delete ''100'' manager1)) = [(''starboardDelete'', star_general)]"
    by auto
  from h1 a h2 h3 b1 b2 show ?thesis by simp
qed

text \<open>
  C3 as it is written does not hold. The manager holds three configs and its storage file
  holds the same three. \<open>delete\<close> of channel 100 succeeds and leaves one config in the
  list; when it returns, the storage file still holds the three: the list is not
  persisted by the call, which has only started the write.
\<close>

theorem delete_persisted_counterexample:
  "''100'' \<in> channelID ` set (starboards manager_synced) \<and>
   fst (delete ''100'' manager_synced) = Inr (Boolean True) \<and>
   starboards (snd (delete ''100'' manager_synced)) = [star_random] \<and>
   files (snd (delete ''100'' manager_synced)) ''./starboards.json'' =
     Some (JSON_stringify [star_random, star_general, heart_general]) \<and>
   JSON_stringify [star_random, star_general, heart_general] \<noteq> JSON_stringify [star_random]"
proof -
  have m: "manager_synced =
      manager1\<lparr>files := [''./starboards.json'' \<mapsto> JSON_stringify [star_random, star_general, heart_general]]\<rparr>"
    by (simp add: manager_synced_def)
  have h: "''100'' \<in> channelID ` set (starboards manager_synced)"
    by (simp add: manager_synced_def manager1_def manager0_def star_random_def star_general_def heart_general_def)
  have n: "JSON_stringify [star_random, star_general, heart_general] \<noteq> JSON_stringify [star_random]"
    by (simp add: JSON_stringify_def)
  from h n show ?thesis
    by (simp add: m delete_100_manager1)
qed

section \<open>Loading the storage file\<close>

text \<open>
  C4. With a path as storage, \<open>getAllStarboards\<close> returns the configs of the array
  that the storage file holds, and \<open>_init\<close> makes them the list of the manager. When
  the file does not exist, it writes an empty array to it and returns the empty list. When
  the file holds JSON that is not an array, or a text that \<open>JSON.parse\<close> rejects
  (a truncated text among them), it throws a \<open>SyntaxError\<close> and returns no list; no
  file changes.
\<close>
theorem getAllStarboards_cases:
  assumes "storage m = Path p"
  shows "(files m p = None \<longrightarrow>
            getAllStarboards m = (Inr [], m\<lparr>files := (files m)(p \<mapsto> Text (Array []))\<rparr>)) \<and>
         (\<forall>cs. files m p = Some (Text (Array cs)) \<longrightarrow>
            getAllStarboards m = (Inr cs, m) \<and> starboards (init m) = cs) \<and>
         (files m p = Some (Text NotArray) \<longrightarrow>
            getAllStarboards m =
              (Inl (SyntaxError ''The storage file is not properly formatted (giveaways is not an array).''), m)) \<and>
         (files m p = Some (Unparsable ''Unexpected end of JSON input'') \<longrightarrow>
            getAllStarboards m =
              (Inl (SyntaxError ''The storage file is not properly formatted (Unexpected end of JSON input).''), m)) \<and>
         (\<forall>msg. files m p = Some (Unparsable msg) \<and> msg \<noteq> ''Unexpected end of JSON input'' \<longrightarrow>
            getAllStarboards m = (Inl (SyntaxError msg), m))"
  using assms by (simp add: getAllStarboards_def init_def)

theorem getAllStarboards_cases_witness:
  "storage manager0 = Path ''./starboards.json'' \<and>
   files manager0 ''./starboards.json'' = None \<and>
   getAllStarboards manager0 = (Inr [], manager0\<lparr>files := [''./starboards.json'' \<mapsto> Text (Array [])]\<rparr>) \<and>
   storage manager_array = Path ''./starboards.json'' \<and>
   files manager_array ''./starboards.json'' = Some (Text (Array [star_general, heart_general])) \<and>
   getAllStarboards manager_array = (Inr [star_general, heart_general], manager_array) \<and>
   starboards (init manager_array) = [star_general, heart_general] \<and>
   storage manager_object = Path ''./starboards.json'' \<and>
   files manager_object ''./starboards.json'' = Some (Text NotArray) \<and>
   getAllStarboards manager_object =
     (Inl (SyntaxError ''The storage file is not properly formatted (giveaways is not an array).''), manager_object) \<and>
   storage manager2 = Path ''./starboards.json'' \<and>
   files manager2 ''./starboards.json'' = Some (Unparsable ''Unexpected end of JSON input'') \<and>
   getAllStarboards manager2 =
     (Inl (SyntaxError ''The storage file is not properly formatted (Unexpected end of JSON input).''), manager2) \<and>
   storage manager_token = Path ''./starboards.json'' \<and>
   files manager_token ''./starboards.json'' = Some (Unparsable ''Unexpected token ] in JSON at position 1'') \<and>
   ''Unexpected token ] in JSON at position 1'' \<noteq> ''Unexpected end of JSON input'' \<and>
   getAllStarboards manager_token = (Inl (SyntaxError ''Unexpected token ] in JSON at position 1''), manager_token)"
proof -
  have s: "storage manager0 = Path ''./starboards.json''"
    "storage manager_array = Path ''./starboards.json''"
    "storage manager_object = Path ''./starboards.json''"
    "storage manager2 = Path ''./starboards.json''"
    "storage manager_token = Path ''./starboards.json''"
    by (simp_all add: manager0_def manager1_def manager2_def manager_array_def manager_object_def manager_token_def)
  have f: "files manager0 = Map.empty"
    "files manager_array ''./starboards.json'' = Some (Text (Array [star_general, heart_general]))"
    "files manager_object ''./starboards.json'' = Some (Text NotArray)"
    "files manager2 ''./starboards.json'' = Some (Unparsable ''Unexpected end of JSON input'')"
    "files manager_token ''./starboards.json'' = Some (Unparsable ''Unexpected token ] in JSON at position 1'')"
    by (simp_all add: manager0_def manager2_def manager_array_def manager_object_def manager_token_def)
  have n: "''Unexpected token ] in JSON at position 1'' \<noteq> ''Unexpected end of JSON input''" by simp
  note a = getAllStarboards_cases [OF s(1)]
  note b = getAllStarboards_cases [OF s(2)]
  note c = getAllStarboards_cases [OF s(3)]
  note d = getAllStarboards_cases [OF s(4)]
  note e = getAllStarboards_cases [OF s(5)]
  from a f(1) have 1: "getAllStarboards manager0 = (Inr [], manager0\<lparr>files := [''./starboards.json'' \<mapsto> Text (Array [])]\<rparr>)"
    by simp
  from b f(2) have 2: "getAllStarboards manager_array = (Inr [star_general, heart_general], manager_array)"
    "starboards (init manager_array) = [star_general, heart_general]" by simp_all
  from c f(3) have 3: "getAllStarboards manager_object =
     (Inl (SyntaxError ''The storage file is not properly formatted (giveaways is not an array).''), manager_object)"
    by simp
  from d f(4) have 4: "getAllStarboards manager2 =
     (Inl (SyntaxError ''The storage file is not properly formatted (Unexpected end of JSON input).''), manager2)"
    by simp
  from e f(5) n have 5: "getAllStarboards manager_token = (Inl (SyntaxError ''Unexpected token ] in JSON at position 1''), manager_token)"
    by simp
  from s f n 1 2 3 4 5 show ?thesis by simp
qed

section \<open>Options over defaults\<close>

text \<open>
  C5. \<open>create\<close> stores a config whose options are the supplied options merged over
  the defaults. With no options argument, or a falsy one, the options are the defaults.
  A field that the argument does not supply, or supplies with a value of another type than
  the field's, has the default's value; a field supplied with a value of the right type
  has that value. The config appended to the list carries these options.
\<close>
theorem mergeOptions_over_defaults:
  "mergeOptions m Undefined = defaultsOptions m \<and>
   (falsy opts \<longrightarrow> mergeOptions m opts = defaultsOptions m) \<and>
   (typeof (get opts ''emoji'') \<noteq> ''string'' \<longrightarrow> emoji (mergeOptions m opts) = emoji (defaultsOptions m)) \<and>
   (typeof (get opts ''threshold'') \<noteq> ''number'' \<longrightarrow> threshold (mergeOptions m opts) = threshold (defaultsOptions m)) \<and>
   (typeof (get opts ''selfStar'') \<noteq> ''boolean'' \<longrightarrow> selfStar (mergeOptions m opts) = selfStar (defaultsOptions m)) \<and>
   (typeof (get opts ''starBotMsg'') \<noteq> ''boolean'' \<longrightarrow> starBotMsg (mergeOptions m opts) = starBotMsg (defaultsOptions m)) \<and>
   (\<forall>s. get opts ''emoji'' = String s \<longrightarrow> emoji (mergeOptions m opts) = s) \<and>
   (\<forall>n. get opts ''threshold'' = Number n \<longrightarrow> threshold (mergeOptions m opts) = Number n) \<and>
   (\<forall>b. get opts ''selfStar'' = Boolean b \<longrightarrow> selfStar (mergeOptions m opts) = b) \<and>
   (\<forall>b. get opts ''starBotMsg'' = Boolean b \<longrightarrow> starBotMsg (mergeOptions m opts) = b) \<and>
   (\<forall>r. fst (create channel opts m) = Inr r \<longrightarrow>
      starboards (snd (create channel opts m)) =
        starboards m @ [\<lparr>channelID = id' channel, guildID = id' (guild channel), options = mergeOptions m opts\<rparr>])"
proof -
  have truthy: "\<not> falsy opts" if "get opts k \<noteq> Undefined" for k
    using that by (cases opts) simp_all
  have 1: "mergeOptions m Undefined = defaultsOptions m" by (simp add: mergeOptions_def)
  have 2: "falsy opts \<longrightarrow> mergeOptions m opts = defaultsOptions m" by (simp add: mergeOptions_def)
  have 3: "typeof (get opts ''emoji'') \<noteq> ''string'' \<longrightarrow> emoji (mergeOptions m opts) = emoji (defaultsOptions m)"
    by (cases "get opts ''emoji''") (simp_all add: mergeOptions_def)
  have 4: "typeof (get opts ''threshold'') \<noteq> ''number'' \<longrightarrow> threshold (mergeOptions m opts) = threshold (defaultsOptions m)"
    by (simp add: mergeOptions_def)
  have 5: "typeof (get opts ''selfStar'') \<noteq> ''boolean'' \<longrightarrow> selfStar (mergeOptions m opts) = selfStar (defaultsOptions m)"
    by (cases "get opts ''selfStar''") (simp_all add: mergeOptions_def)
  have 6: "typeof (get opts ''starBotMsg'') \<noteq> ''boolean'' \<longrightarrow> starBotMsg (mergeOptions m opts) = starBotMsg (defaultsOptions m)"
    by (cases "get opts ''starBotMsg''") (simp_all add: mergeOptions_def)
  have 7: "\<forall>s. get opts ''emoji'' = String s \<longrightarrow> emoji (mergeOptions m opts) = s"
    using truthy [of "''emoji''"] by (auto simp add: mergeOptions_def)
  have 8: "\<forall>n. get opts ''threshold'' = Number n \<longrightarrow> threshold (mergeOptions m opts) = Number n"
    using truthy [of "''threshold''"] by (auto simp add: mergeOptions_def)
  have 9: "\<forall>b. get opts ''selfStar'' = Boolean b \<longrightarrow> selfStar (mergeOptions m opts) = b"
    using truthy [of "''selfStar''"] by (auto simp add: mergeOptions_def)
  have 10: "\<forall>b. get opts ''starBotMsg'' = Boolean b \<longrightarrow> starBotMsg (mergeOptions m opts) = b"
    using truthy [of "''starBotMsg''"] by (auto simp add: mergeOptions_def)
  have 11: "\<forall>r. fst (create channel opts m) = Inr r \<longrightarrow>
      starboards (snd (create channel opts m)) =
        starboards m @ [\<lparr>channelID = id' channel, guildID = id' (guild channel), options = mergeOptions m opts\<rparr>]"
  proof (intro allI impI)
    fix r assume "fst (create channel opts m) = Inr r"
    from create_result [OF this]
    show "starboards (snd (create channel opts m)) =
        starboards m @ [\<lparr>channelID = id' channel, guildID = id' (guild channel), options = mergeOptions m opts\<rparr>]"
      by (simp add: emit_simps saveStarboard_simps new_channelData_def)
  qed
  from 1 2 3 4 5 6 7 8 9 10 11 show ?thesis by blast
qed

theorem mergeOptions_over_defaults_witness:
  "falsy (String '''') \<and> mergeOptions manager0 (String '''') = defaults0 \<and>
   typeof (get opts1 ''emoji'') \<noteq> ''string'' \<and> emoji (mergeOptions manager0 opts1) = ''star'' \<and>
   typeof (get opts1 ''selfStar'') \<noteq> ''boolean'' \<and> selfStar (mergeOptions manager0 opts1) = True \<and>
   get opts1 ''threshold'' = Number (Finite 2) \<and> threshold (mergeOptions manager0 opts1) = Number (Finite 2) \<and>
   get opts1 ''starBotMsg'' = Boolean False \<and> starBotMsg (mergeOptions manager0 opts1) = False \<and>
   typeof (get opts2 ''threshold'') \<noteq> ''number'' \<and> threshold (mergeOptions manager0 opts2) = Number (Finite 1) \<and>
   typeof (get opts2 ''starBotMsg'') \<noteq> ''boolean'' \<and> starBotMsg (mergeOptions manager0 opts2) = True \<and>
   get opts2 ''emoji'' = String ''heart'' \<and> emoji (mergeOptions manager0 opts2) = ''heart'' \<and>
   get opts2 ''selfStar'' = Boolean False \<and> selfStar (mergeOptions manager0 opts2) = False \<and>
   fst (create general opts1 manager0) = Inr (Boolean True) \<and>
   starboards (snd (create general opts1 manager0)) =
     [\<lparr>channelID = ''100'', guildID = ''1'', options = mergeOptions manager0 opts1\<rparr>]"
proof -
  have d: "defaultsOptions manager0 = defaults0" by (simp add: manager0_def)
  have g1: "get opts1 ''emoji'' = Number (Finite 3)" "get opts1 ''selfStar'' = Undefined"
    "get opts1 ''threshold'' = Number (Finite 2)" "get opts1 ''starBotMsg'' = Boolean False"
    by (simp_all add: opts1_def)
  have g2: "get opts2 ''emoji'' = String ''heart''" "get opts2 ''selfStar'' = Boolean False"
    "get opts2 ''threshold'' = Undefined" "get opts2 ''starBotMsg'' = Undefined"
    by (simp_all add: opts2_def)
  have c: "fst (create general opts1 manager0) = Inr (Boolean True)"
    by (simp add: create_def Let_def manager0_def)
  have s: "starboards manager0 = []" by (simp add: manager0_def)
  show ?thesis
    using mergeOptions_over_defaults [of manager0 "String ''''" general]
      mergeOptions_over_defaults [of manager0 opts1 general]
      mergeOptions_over_defaults [of manager0 opts2 general] d g1 g2 c s
    by (auto simp add: general_def defaults0_def)
qed

section \<open>The storage file is written whole\<close>

text \<open>
  C6, as the code has it. A call of \<open>create\<close> or \<open>delete\<close> that succeeds starts one
  write, of the serialization of the whole list that the manager holds after the call.
  When the storage is a path and no other operation is pending, the completion of that
  write leaves every other file as it was and the storage file with that serialization,
  whatever the file held before.
\<close>

theorem mutation_starts_full_write:
  "(\<forall>r. fst (create channel opts m) = Inr r \<longrightarrow>
      pending (snd (create channel opts m)) =
        pending m @ [Write (JSON_stringify (starboards (snd (create channel opts m))))] \<and>
      (\<forall>p. storage m = Path p \<and> pending m = [] \<longrightarrow>
         files (settle (snd (create channel opts m))) =
           (files m)(p \<mapsto> JSON_stringify (starboards (snd (create channel opts m)))) \<and>
         starboards (settle (snd (create channel opts m))) = starboards (snd (create channel opts m)) \<and>
         pending (settle (snd (create channel opts m))) = [])) \<and>
   (\<forall>r. fst (delete channelID' m) = Inr r \<longrightarrow>
      pending (snd (delete channelID' m)) =
        pending m @ [Write (JSON_stringify (starboards (snd (delete channelID' m))))] \<and>
      (\<forall>p. storage m = Path p \<and> pending m = [] \<longrightarrow>
         files (settle (snd (delete channelID' m))) =
           (files m)(p \<mapsto> JSON_stringify (starboards (snd (delete channelID' m)))) \<and>
         starboards (settle (snd (delete channelID' m))) = starboards (snd (delete channelID' m)) \<and>
         pending (settle (snd (delete channelID' m))) = []))"
proof (intro conjI allI impI)
  fix r assume ok: "fst (create channel opts m) = Inr r"
  note c = create_result [OF ok]
  show p: "pending (snd (create channel opts m)) =
        pending m @ [Write (JSON_stringify (starboards (snd (create channel opts m))))]"
    by (simp add: c emit_simps saveStarboard_simps)
  fix p assume a: "storage m = Path p \<and> pending m = []"
  have s: "storage (snd (create channel opts m)) = Path p"
    using a by (simp add: c emit_simps saveStarboard_simps)
  have f: "files (snd (create channel opts m)) = files m"
    by (simp add: c emit_simps saveStarboard_simps)
  from p a have "pending (snd (create channel opts m)) =
      [Write (JSON_stringify (starboards (snd (create channel opts m))))]" by simp
  from settle_write [OF this s] f
  show "files (settle (snd (create channel opts m))) =
           (files m)(p \<mapsto> JSON_stringify (starboards (snd (create channel opts m))))"
    and "starboards (settle (snd (create channel opts m))) = starboards (snd (create channel opts m))"
    and "pending (settle (snd (create channel opts m))) = []"
    by simp_all
next
  fix r assume ok: "fst (delete channelID' m) = Inr r"
  then obtain d where del: "delete channelID' m =
           (Inr (Boolean True),
            emit ''starboardDelete'' d
              (deleteStarboard channelID' (m\<lparr>starboards := filter (\<lambda>c. channelID c \<noteq> channelID') (starboards m)\<rparr>)))"
    by (rule delete_result)
  show p: "pending (snd (delete channelID' m)) =
        pending m @ [Write (JSON_stringify (starboards (snd (delete channelID' m))))]"
    by (simp add: del emit_simps deleteStarboard_simps)
  fix p assume a: "storage m = Path p \<and> pending m = []"
  have s: "storage (snd (delete channelID' m)) = Path p"
    using a by (simp add: del emit_simps deleteStarboard_simps)
  have f: "files (snd (delete channelID' m)) = files m"
    by (simp add: del emit_simps deleteStarboard_simps)
  from p a have "pending (snd (delete channelID' m)) =
      [Write (JSON_stringify (starboards (snd (delete channelID' m))))]" by simp
  from settle_write [OF this s] f
  show "files (settle (snd (delete channelID' m))) =
           (files m)(p \<mapsto> JSON_stringify (starboards (snd (delete channelID' m))))"
    and "starboards (settle (snd (delete channelID' m))) = starboards (snd (delete channelID' m))"
    and "pending (settle (snd (delete channelID' m))) = []"
    by simp_all
qed

lemma create_random_manager1:
  "create random opts2 (manager1\<lparr>files := fs\<rparr>) =
     (Inr (Boolean True),
      manager1\<lparr>files := fs,
               starboards := [star_random, star_general, heart_general,
                 \<lparr>channelID = ''200'', guildID = ''1'', options = defaults0\<lparr>emoji := ''heart'', selfStar := False\<rparr>\<rparr>],
               emitted := [(''starboardCreate'',
                 \<lparr>channelID = ''200'', guildID = ''1'', options = defaults0\<lparr>emoji := ''heart'', selfStar := False\<rparr>\<rparr>)],
               pending := [Write (JSON_stringify [star_random, star_general, heart_general,
                 \<lparr>channelID = ''200'', guildID = ''1'', options = defaults0\<lparr>emoji := ''heart'', selfStar := False\<rparr>\<rparr>])]\<rparr>)"
  by (simp add: create_def Let_def new_channelData_def mergeOptions_def opts2_def random_def
      emit_def saveStarboard_def
      manager1_def manager0_def star_random_def star_general_def heart_general_def defaults0_def)

theorem mutation_starts_full_write_witness:
  "storage manager2 = Path ''./starboards.json'' \<and>
   pending manager2 = [] \<and>
   files manager2 ''./starboards.json'' = Some (Unparsable ''Unexpected end of JSON input'') \<and>
   fst (create random opts2 manager2) = Inr (Boolean True) \<and>
   pending (snd (create random opts2 manager2)) =
     [Write (JSON_stringify [star_random, star_general, heart_general,
          \<lparr>channelID = ''200'', guildID = ''1'', options = defaults0\<lparr>emoji := ''heart'', selfStar := False\<rparr>\<rparr>])] \<and>
   files (settle (snd (create random opts2 manager2))) ''./starboards.json'' =
     Some (JSON_stringify [star_random, star_general, heart_general,
          \<lparr>channelID = ''200'', guildID = ''1'', options = defaults0\<lparr>emoji := ''heart'', selfStar := False\<rparr>\<rparr>]) \<and>
   files (settle (snd (create random opts2 manager2))) ''notes.txt'' = Some (Text NotArray) \<and>
   fst (delete ''100'' manager2) = Inr (Boolean True) \<and>
   pending (snd (delete ''100'' manager2)) = [Write (JSON_stringify [star_random])] \<and>
   files (settle (snd (delete ''100'' manager2))) ''./starboards.json'' = Some (JSON_stringify [star_random]) \<and>
   files (settle (snd (delete ''100'' manager2))) ''notes.txt'' = Some (Text NotArray)"
proof -
  have m: "manager2 = manager1\<lparr>files := [''./starboards.json'' \<mapsto> Unparsable ''Unexpected end of JSON input'',
                                    ''notes.txt'' \<mapsto> Text NotArray]\<rparr>"
    by (simp add: manager2_def)
  have h: "storage manager2 = Path ''./starboards.json''" "pending manager2 = []"
    by (simp_all add: manager2_def manager1_def manager0_def)
  have f: "files manager2 ''./starboards.json'' = Some (Unparsable ''Unexpected end of JSON input'')"
    "files manager2 ''notes.txt'' = Some (Text NotArray)"
    by (simp_all add: manager2_def)
  have c: "fst (create random opts2 manager2) = Inr (Boolean True)"
    and cs: "starboards (snd (create random opts2 manager2)) =
      [star_random, star_general, heart_general,
       \<lparr>channelID = ''200'', guildID = ''1'', options = defaults0\<lparr>emoji := ''heart'', selfStar := False\<rparr>\<rparr>]"
    by (simp_all add: m create_random_manager1)
  have d: "fst (delete ''100'' manager2) = Inr (Boolean True)"
    and ds: "starboards (snd (delete ''100'' manager2)) = [star_random]"
    by (simp_all add: m delete_100_manager1)
  note t = mutation_starts_full_write [of random opts2 manager2 "''100''"]
  note tc = t [THEN conjunct1, rule_format, OF c]
  note td = t [THEN conjunct2, rule_format, OF d]
  from tc h cs f have 1: "pending (snd (create random opts2 manager2)) =
     [Write (JSON_stringify [star_random, star_general, heart_general,
          \<lparr>channelID = ''200'', guildID = ''1'', options = defaults0\<lparr>emoji := ''heart'', selfStar := False\<rparr>\<rparr>])]"
    "files (settle (snd (create random opts2 manager2))) ''./starboards.json'' =
     Some (JSON_stringify [star_random, star_general, heart_general,
          \<lparr>channelID = ''200'', guildID = ''1'', options = defaults0\<lparr>emoji := ''heart'', selfStar := False\<rparr>\<rparr>])"
    "files (settle (snd (create random opts2 manager2))) ''notes.txt'' = Some (Text NotArray)"
    by simp_all
  from td h ds f have 2: "pending (snd (delete ''100'' manager2)) = [Write (JSON_stringify [star_random])]"
    "files (settle (snd (delete ''100'' manager2))) ''./starboards.json'' = Some (JSON_stringify [star_random])"
    "files (settle (snd (delete ''100'' manager2))) ''notes.txt'' = Some (Text NotArray)"
    by simp_all
  from h f c d 1 2 show ?thesis by simp
qed

text \<open>
  C6 as it is written does not hold. The manager holds three configs and its storage file
  holds the same three. \<open>create\<close> of a fourth succeeds; when it returns, the storage file
  still holds the three, not the serialization of the four that the manager holds.
\<close>

theorem mutation_store_counterexample:
  "storage manager_synced = Path ''./starboards.json'' \<and>
   fst (create random opts2 manager_synced) = Inr (Boolean True) \<and>
   starboards (snd (create random opts2 manager_synced)) =
     [star_random, star_general, heart_general,
      \<lparr>channelID = ''200'', guildID = ''1'', options = defaults0\<lparr>emoji := ''heart'', selfStar := False\<rparr>\<rparr>] \<and>
   files (snd (create random opts2 manager_synced)) ''./starboards.json'' =
     Some (JSON_stringify [star_random, star_general, heart_general]) \<and>
   JSON_stringify [star_random, star_general, heart_general] \<noteq>
     JSON_stringify [star_random, star_general, heart_general,
      \<lparr>channelID = ''200'', guildID = ''1'', options = defaults0\<lparr>emoji := ''heart'', selfStar := False\<rparr>\<rparr>]"
proof -
  have m: "manager_synced =
      manager1\<lparr>files := [''./starboards.json'' \<mapsto> JSON_stringify [star_random, star_general, heart_general]]\<rparr>"
    by (simp add: manager_synced_def)
  have s: "storage manager_synced = Path ''./starboards.json''"
    by (simp add: manager_synced_def manager1_def manager0_def)
  have n: "JSON_stringify [star_random, star_general, heart_general] \<noteq>
     JSON_stringify [star_random, star_general, heart_general,
      \<lparr>channelID = ''200'', guildID = ''1'', options = defaults0\<lparr>emoji := ''heart'', selfStar := False\<rparr>\<rparr>]"
    by (simp add: JSON_stringify_def)
  from s n show ?thesis
    by (simp add: m create_random_manager1)
qed

section \<open>Round trip through the storage file\<close>

























section \<open>What a call returns\<close>

text \<open>
  C8, as the code has it. A call of \<open>create\<close> that succeeds returns \<open>true\<close>; the
  config it built is the one appended to the list and the one handed to the listeners of
  \<open>starboardCreate\<close>. A call of \<open>delete\<close> that succeeds returns \<open>true\<close>; the
  config that the lookup by channel found is handed to the listeners of
  \<open>starboardDelete\<close>.
\<close>
theorem create_delete_return_true:
  "(\<forall>r. fst (create channel opts m) = Inr r \<longrightarrow>
      r = Boolean True \<and>
      starboards (snd (create channel opts m)) = starboards m @ [new_channelData channel opts m] \<and>
      emitted (snd (create channel opts m)) = emitted m @ [(''starboardCreate'', new_channelData channel opts m)]) \<and>
   (\<forall>r. fst (delete channelID' m) = Inr r \<longrightarrow>
      r = Boolean True \<and>
      (\<exists>d. findByChannel channelID' m = Some d \<and>
           emitted (snd (delete channelID' m)) = emitted m @ [(''starboardDelete'', d)]))"
proof (intro conjI allI impI)
  fix r assume ok: "fst (create channel opts m) = Inr r"
  note c = create_result [OF ok]
  from ok c show "r = Boolean True" by simp
  from c show "starboards (snd (create channel opts m)) = starboards m @ [new_channelData channel opts m]"
    by (simp add: emit_simps saveStarboard_simps)
  from c show "emitted (snd (create channel opts m)) = emitted m @ [(''starboardCreate'', new_channelData channel opts m)]"
    by (simp add: emit_simps saveStarboard_simps)
next
  fix r assume ok: "fst (delete channelID' m) = Inr r"
  then obtain d where f: "find (\<lambda>d. channelID d = channelID') (starboards m) = Some d"
    and del: "delete channelID' m =
           (Inr (Boolean True),
            emit ''starboardDelete'' d
              (deleteStarboard channelID' (m\<lparr>starboards := filter (\<lambda>c. channelID c \<noteq> channelID') (starboards m)\<rparr>)))"
    by (rule delete_result)
  from ok del show "r = Boolean True" by simp
  from f del show "\<exists>d. findByChannel channelID' m = Some d \<and>
           emitted (snd (delete channelID' m)) = emitted m @ [(''starboardDelete'', d)]"
    by (simp add: findByChannel_def emit_simps deleteStarboard_simps)
qed

theorem create_delete_return_true_witness:
  "fst (create general opts1 manager0) = Inr (Boolean True) \<and>
   starboards (snd (create general opts1 manager0)) = [new_channelData general opts1 manager0] \<and>
   emitted (snd (create general opts1 manager0)) = [(''starboardCreate'', new_channelData general opts1 manager0)] \<and>
   fst (delete ''100'' manager1) = Inr (Boolean True) \<and>
   findByChannel ''100'' manager1 = Some star_general \<and>
   emitted (snd (delete ''100'' manager1)) = [(''starboardDelete'', star_general)]"
proof -
  have c: "fst (create general opts1 manager0) = Inr (Boolean True)"
    by (simp add: create_def Let_def manager0_def)
  have d: "fst (delete ''100'' manager1) = Inr (Boolean True)"
    by (simp add: delete_def findByChannel_def Let_def
        manager1_def manager0_def star_random_def star_general_def heart_general_def)
  have f: "findByChannel ''100'' manager1 = Some star_general"
    by (simp add: findByChannel_def manager1_def manager0_def star_random_def star_general_def heart_general_def)
  have e: "starboards manager0 = []" "emitted manager0 = []" "emitted manager1 = []"
    by (simp_all add: manager1_def manager0_def)
  note t = create_delete_return_true [of general opts1 manager0 "''100''"]
  note u = create_delete_return_true [of general opts1 manager1 "''100''"]
  from t c e have t1: "starboards (snd (create general opts1 manager0)) = [new_channelData general opts1 manager0]"
    by simp
  from t c e have t2: "emitted (snd (create general opts1 manager0)) = [(''starboardCreate'', new_channelData general opts1 manager0)]"
    by simp
  from u d obtain d' where "findByChannel ''100'' manager1 = Some d'"
    "emitted (snd (delete ''100'' manager1)) = emitted manager1 @ [(''starboardDelete'', d')]"
    by blast
  with f e have t3: "emitted (snd (delete ''100'' manager1)) = [(''starboardDelete'', star_general)]"
    by simp
  from c t1 t2 d f t3 show ?thesis by blast
qed

text \<open>
  C8 as it is written does not hold: \<open>create\<close> on the empty registry and \<open>delete\<close>
  of a channel that has a starboard both succeed and return \<open>true\<close>, which is not the
  config.
\<close>

theorem create_returns_config_counterexample:
  "fst (create general opts1 manager0) = Inr (Boolean True) \<and>
   Boolean True \<noteq> config_value (new_channelData general opts1 manager0) \<and>
   fst (delete ''100'' manager1) = Inr (Boolean True) \<and>
   Boolean True \<noteq> config_value star_general"
proof -
  have c: "fst (create general opts1 manager0) = Inr (Boolean True)"
    by (simp add: create_def Let_def manager0_def)
  have d: "fst (delete ''100'' manager1) = Inr (Boolean True)"
    by (simp add: delete_def findByChannel_def Let_def
        manager1_def manager0_def star_random_def star_general_def heart_general_def)
  show ?thesis using c d by (simp add: config_value_def)
qed

section \<open>The storage option\<close>

text \<open>
  C9. The constructor keeps a \<open>storage\<close> option that is a boolean or a string, and
  takes \<open>./starboards.json\<close> for every other options argument. With a string, the
  storage is that path. With a boolean, the manager starts with an empty list and no call
  and no completion of a pending operation, in whatever order, ever changes a file:
  nothing is persisted.
\<close>

theorem constructor_storage:
  assumes "constructor (Some client) opts defaults fs = Inr m"
  shows "(\<forall>b. get opts ''storage'' = Boolean b \<longrightarrow>
            storage m = Flag b \<and> starboards m = [] \<and> files m = fs \<and> (\<forall>calls. files (run calls m) = fs) \<and>
            (\<forall>events. files (schedule events m) = fs)) \<and>
         (\<forall>s. get opts ''storage'' = String s \<longrightarrow> storage m = Path s) \<and>
         (typeof (get opts ''storage'') \<noteq> ''boolean'' \<and> typeof (get opts ''storage'') \<noteq> ''string'' \<longrightarrow>
            storage m = Path ''./starboards.json'')"
proof -
  define opts' where "opts' = (if opts = Undefined then Object [] else opts)"
  have g: "get opts' ''storage'' = get opts ''storage''" by (simp add: opts'_def)
  define st where "st = (case get opts ''storage'' of Boolean b \<Rightarrow> Flag b | String s \<Rightarrow> Path s | _ \<Rightarrow> Path ''./starboards.json'')"
  define m0 where "m0 = \<lparr>starboards = [], defaultsOptions = defaults, storage = st, files = fs, emitted = [],
                          pending = [Load]\<rparr>"
  from assms have m: "m = m0"
    by (simp add: constructor_def Let_def opts'_def [symmetric] g st_def m0_def split: if_splits)
  have sm: "storage m = st" by (simp add: m m0_def)
  have f: "files m = fs" "starboards m = []" by (simp_all add: m m0_def)
  have 1: "\<forall>b. get opts ''storage'' = Boolean b \<longrightarrow>
            storage m = Flag b \<and> starboards m = [] \<and> files m = fs \<and> (\<forall>calls. files (run calls m) = fs) \<and>
            (\<forall>events. files (schedule events m) = fs)"
  proof (intro allI impI)
    fix b assume "get opts ''storage'' = Boolean b"
    then have st: "st = Flag b" by (simp add: st_def)
    with sm have s: "storage m = Flag b" by simp
    have r: "\<forall>calls. files (run calls m) = fs" by (simp add: run_files f)
    from s have "\<forall>events. files (schedule events m) = files m" by (simp add: schedule_files_Flag)
    with s f r show "storage m = Flag b \<and> starboards m = [] \<and> files m = fs \<and> (\<forall>calls. files (run calls m) = fs) \<and>
            (\<forall>events. files (schedule events m) = fs)"
      by simp
  qed
  have 2: "\<forall>s. get opts ''storage'' = String s \<longrightarrow> storage m = Path s"
    by (simp add: sm st_def)
  have 3: "typeof (get opts ''storage'') \<noteq> ''boolean'' \<and> typeof (get opts ''storage'') \<noteq> ''string'' \<longrightarrow>
            storage m = Path ''./starboards.json''"
    by (cases "get opts ''storage''") (simp_all add: sm st_def)
  from 1 2 3 show ?thesis by blast
qed

theorem constructor_storage_witness:
  "constructor (Some ()) (Object [(''storage'', Boolean False)]) defaults0 Map.empty = Inr manager_flag \<and>
   get (Object [(''storage'', Boolean False)]) ''storage'' = Boolean False \<and>
   storage manager_flag = Flag False \<and>
   starboards (schedule [Settle 0, Call (Create general Undefined), Settle 0, Call (Create random opts1),
      Call (Delete ''100''), Settle (Suc 0), Settle 0] manager_flag) = [new_channelData random opts1 manager_flag] \<and>
   pending (schedule [Settle 0, Call (Create general Undefined), Settle 0, Call (Create random opts1),
      Call (Delete ''100''), Settle (Suc 0), Settle 0] manager_flag) = [] \<and>
   files (schedule [Settle 0, Call (Create general Undefined), Settle 0, Call (Create random opts1),
      Call (Delete ''100''), Settle (Suc 0), Settle 0] manager_flag) = Map.empty \<and>
   files (run [Create general Undefined, Create random opts1, Delete ''100''] manager_flag) = Map.empty \<and>
   constructor (Some ()) (Object [(''storage'', String ''./data/boards.json'')]) defaults0 Map.empty = Inr manager_custom \<and>
   get (Object [(''storage'', String ''./data/boards.json'')]) ''storage'' = String ''./data/boards.json'' \<and>
   storage manager_custom = Path ''./data/boards.json'' \<and>
   constructor (Some ()) (Object [(''storage'', Number (Finite 1))]) defaults0 Map.empty = Inr manager_default \<and>
   typeof (get (Object [(''storage'', Number (Finite 1))]) ''storage'') \<noteq> ''boolean'' \<and>
   typeof (get (Object [(''storage'', Number (Finite 1))]) ''storage'') \<noteq> ''string'' \<and>
   constructor (Some ()) Undefined defaults0 Map.empty = Inr manager_default \<and>
   typeof (get Undefined ''storage'') \<noteq> ''boolean'' \<and>
   typeof (get Undefined ''storage'') \<noteq> ''string'' \<and>
   storage manager_default = Path ''./starboards.json''"
proof -
  have c1: "constructor (Some ()) (Object [(''storage'', Boolean False)]) defaults0 Map.empty = Inr manager_flag"
    by (simp add: constructor_def manager_flag_def manager0_def)
  have c2: "constructor (Some ()) (Object [(''storage'', String ''./data/boards.json'')]) defaults0 Map.empty = Inr manager_custom"
    by (simp add: constructor_def manager_custom_def manager0_def)
  have c3: "constructor (Some ()) (Object [(''storage'', Number (Finite 1))]) defaults0 Map.empty = Inr manager_default"
    by (simp add: constructor_def manager_default_def manager0_def)
  have c4: "constructor (Some ()) Undefined defaults0 Map.empty = Inr manager_default"
    by (simp add: constructor_def manager_default_def manager0_def)
  have g: "get (Object [(''storage'', Boolean False)]) ''storage'' = Boolean False"
    "get (Object [(''storage'', String ''./data/boards.json'')]) ''storage'' = String ''./data/boards.json''"
    "get (Object [(''storage'', Number (Finite 1))]) ''storage'' = Number (Finite 1)"
    "get Undefined ''storage'' = Undefined"
    by simp_all
  have r: "starboards (schedule [Settle 0, Call (Create general Undefined), Settle 0, Call (Create random opts1),
      Call (Delete ''100''), Settle (Suc 0), Settle 0] manager_flag) = [new_channelData random opts1 manager_flag]"
    "pending (schedule [Settle 0, Call (Create general Undefined), Settle 0, Call (Create random opts1),
      Call (Delete ''100''), Settle (Suc 0), Settle 0] manager_flag) = []"
    by (simp_all add: schedule_def settle_nth_def init_def getAllStarboards_def
        create_def delete_def findByChannel_def Let_def new_channelData_def mergeOptions_def
        emit_def saveStarboard_def deleteStarboard_def opts1_def general_def random_def manager_flag_def manager0_def defaults0_def)
  note t1 = constructor_storage [OF c1]
  note t2 = constructor_storage [OF c2]
  note t3 = constructor_storage [OF c3]
  note t4 = constructor_storage [OF c4]
  from t1 [THEN conjunct1, rule_format, OF g(1)] have 1: "storage manager_flag = Flag False"
    "files (schedule [Settle 0, Call (Create general Undefined), Settle 0, Call (Create random opts1),
      Call (Delete ''100''), Settle (Suc 0), Settle 0] manager_flag) = Map.empty"
    "files (run [Create general Undefined, Create random opts1, Delete ''100''] manager_flag) = Map.empty"
    by simp_all
  from t2 [THEN conjunct2, THEN conjunct1, rule_format, OF g(2)]
  have 2: "storage manager_custom = Path ''./data/boards.json''" by simp
  from t3 g(3) have 3: "storage manager_default = Path ''./starboards.json''" by simp
  from t4 g(4) have 4: "storage manager_default = Path ''./starboards.json''" by simp
  from c1 c2 c3 c4 g r 1 2 3 show ?thesis by simp
qed

section \<open>One call deletes every starboard of the channel\<close>

text \<open>
  C10. When the first config of the list with the channel id is \<open>d\<close>, \<open>delete\<close>
  removes every config that has the channel id, whatever its emoji, and emits one
  event, \<open>starboardDelete\<close> with \<open>d\<close>.
\<close>
theorem delete_removes_channel_emits_first:
  assumes "starboards m = pre @ d # post"
    and "\<forall>c \<in> set pre. channelID c \<noteq> channelID'"
    and "channelID d = channelID'"
  shows "starboards (snd (delete channelID' m)) = filter (\<lambda>c. channelID c \<noteq> channelID') (pre @ post) \<and>
         (\<forall>c \<in> set (starboards (snd (delete channelID' m))). channelID c \<noteq> channelID') \<and>
         emitted (snd (delete channelID' m)) = emitted m @ [(''starboardDelete'', d)]"
proof -
  have "find (\<lambda>c. channelID c = channelID') (starboards m) = Some d"
    using assms by (simp add: find_first)
  from delete_found [OF this] assms(1,3) show ?thesis
    by (auto simp add: emit_simps deleteStarboard_simps)
qed

theorem delete_removes_channel_emits_first_witness:
  "starboards manager1 = [star_random] @ star_general # [heart_general] \<and>
   channelID star_random \<noteq> ''100'' \<and>
   channelID star_general = ''100'' \<and> channelID heart_general = ''100'' \<and>
   emoji (options star_general) \<noteq> emoji (options heart_general) \<and>
   starboards (snd (delete ''100'' manager1)) = [star_random] \<and>
   emitted (snd (delete ''100'' manager1)) = [(''starboardDelete'', star_general)]"
proof -
  have h1: "starboards manager1 = [star_random] @ star_general # [heart_general]"
    by (simp add: manager1_def)
  have h2: "\<forall>c \<in> set [star_random]. channelID c \<noteq> ''100''"
    by (simp add: star_random_def)
  have h3: "channelID star_general = ''100''"
    by (simp add: star_general_def)
  have e: "emitted manager1 = []" by (simp add: manager1_def manager0_def)
  have o: "channelID heart_general = ''100''" "channelID star_random = ''200''"
    by (simp_all add: heart_general_def star_random_def)
  have o2: "emoji (options star_general) \<noteq> emoji (options heart_general)"
    by (simp add: star_general_def heart_general_def defaults0_def)
  note t = delete_removes_channel_emits_first [OF h1 h2 h3]
  have t1: "starboards (snd (delete ''100'' manager1)) = [star_random]"
    using t o by simp
  have t2: "emitted (snd (delete ''100'' manager1)) = [(''starboardDelete'', star_general)]"
    using t e by simp
  show ?thesis
    using h1 h2 h3 o o2 t1 t2 by simp
qed

end
